theory Spec2Isabelle
  imports Main
begin

section \<open>The door bot of \<open>bot.py\<close>: data model\<close>

text \<open>
  \<open>bot.py\<close> keeps one dictionary \<open>user_states: Dict[int, str]\<close> (line 31), empty when the
  process starts, and three handlers that read and write it: \<open>start\<close>, \<open>handle_message\<close> and
  \<open>on_callback_query\<close>. The dictionary is a map from user ids to strings; the three state
  tags are the string constants of lines 33 to 35.
\<close>

type_synonym user_states = "int \<rightharpoonup> string"

definition STATE_NEW :: string where
  "STATE_NEW = ''new''"

definition STATE_DOOR_SHOWN :: string where
  "STATE_DOOR_SHOWN = ''door_shown''"

definition STATE_CLOSED :: string where
  "STATE_CLOSED = ''closed''"

text \<open>
  The message bodies and button labels are Cyrillic literals. Their characters play no role
  in the control flow, so each distinct literal of the source is named by one constructor:
  \<^item> \<open>Door_already_closed\<close>: the literal of lines 56-57, repeated at 91-92 and 117-118
    ("the door is already closed, it cannot be opened again");
  \<^item> \<open>Intro_text\<close>: \<open>text\<close> of lines 68-73 ("today you have one door ... ready?");
  \<^item> \<open>Open_the_door\<close>: the button label of line 64;
  \<^item> \<open>Door_text\<close>: \<open>text\<close> of lines 138-143, which starts with \<open>door_art\<close> (lines 126-131);
  \<^item> \<open>Open_label\<close>: the button label of line 134;
  \<^item> \<open>Text_1\<close>: \<open>text_1\<close> of lines 153-158 ("sometimes there is nothing behind a door, just
    space");
  \<^item> \<open>Text_2\<close>: \<open>text_2\<close> of lines 162-168 (the gift message);
  \<^item> \<open>Door_closing\<close>: the literal of line 171 ("the door is closing");
  \<^item> \<open>Closed_text\<close>: the literal of lines 173-174 ("closed. I hope your day goes brightly").
\<close>

datatype msg_text =
    Door_already_closed
  | Intro_text
  | Open_the_door
  | Door_text
  | Open_label
  | Text_1
  | Text_2
  | Door_closing
  | Closed_text

text \<open>
  \<open>InlineKeyboardButton(label, callback_data=...)\<close>; an \<open>InlineKeyboardMarkup\<close> is built from
  a list of rows of buttons.
\<close>

datatype button = InlineKeyboardButton (label: msg_text) (callback_data: string)

type_synonym reply_markup = "button list list"

text \<open>
  What a handler reads of its \<open>Update\<close>: \<open>update.message\<close> (tested against \<open>None\<close>, then only
  replied to), \<open>update.effective_user\<close> (only its \<open>id\<close> is read, so the field holds the id),
  and \<open>update.callback_query\<close> with its \<open>from_user.id\<close>, its \<open>data\<close> and its \<open>message\<close>. The
  fields that Python may find to be \<open>None\<close> are options.
\<close>

datatype message = Message

record callback_query =
  from_user :: int
  data :: "string option"
  query_message :: "message option"

record update =
  message :: "message option"
  effective_user :: "int option"
  callback_query :: "callback_query option"

text \<open>
  A handler's effects, in program order: \<open>query.answer()\<close>, the reads
  (\<open>user_states.get(user_id)\<close>) and writes (\<open>user_states[user_id] = v\<close>) of the dictionary,
  \<open>reply_text\<close> on a message (a new message is sent) and \<open>query.edit_message_text\<close> (the
  message carrying the pressed button is replaced). Reading an attribute of \<open>None\<close> raises
  \<open>AttributeError\<close>; \<open>main\<close> raises \<open>RuntimeError\<close>. The sends themselves are calls into the
  chat platform and are taken to return.
\<close>

datatype effect =
    Query_answer
  | States_get int
  | States_set int string
  | Reply_text msg_text "reply_markup option"
  | Edit_message_text msg_text "reply_markup option"

datatype error = AttributeError | RuntimeError

record outcome =
  states :: user_states
  trace :: "effect list"
  raised :: "error option"

fun is_message :: "effect \<Rightarrow> bool" where
  "is_message (Reply_text t k) = True"
| "is_message (Edit_message_text t k) = True"
| "is_message e = False"

fun is_states_access :: "effect \<Rightarrow> bool" where
  "is_states_access (States_get u) = True"
| "is_states_access (States_set u v) = True"
| "is_states_access e = False"

definition messages :: "effect list \<Rightarrow> effect list" where
  "messages tr = filter is_message tr"

section \<open>The handlers\<close>

text \<open>\<open>start\<close>, lines 42-75.\<close>

definition start :: "update \<Rightarrow> user_states \<Rightarrow> outcome" where
  "start upd user_states =
     (case message upd of
        None \<Rightarrow> \<lparr>states = user_states, trace = [], raised = None\<rparr>
      | Some m \<Rightarrow>
         (case effective_user upd of
            None \<Rightarrow> \<lparr>states = user_states, trace = [], raised = Some AttributeError\<rparr>
          | Some user_id \<Rightarrow>
             (let state = user_states user_id in
              if state = Some STATE_CLOSED then
                \<lparr>states = user_states,
                 trace = [States_get user_id, Reply_text Door_already_closed None],
                 raised = None\<rparr>
              else
                \<lparr>states = user_states(user_id \<mapsto> STATE_NEW),
                 trace = [States_get user_id, States_set user_id STATE_NEW,
                          Reply_text Intro_text
                            (Some [[InlineKeyboardButton Open_the_door ''open_intro'']])],
                 raised = None\<rparr>)))"

text \<open>
  \<open>handle_message\<close>, lines 78-97: its own lookup and lockout test, then the call of \<open>start\<close>
  on the same update, whose effects follow the lookup.
\<close>

definition handle_message :: "update \<Rightarrow> user_states \<Rightarrow> outcome" where
  "handle_message upd user_states =
     (case message upd of
        None \<Rightarrow> \<lparr>states = user_states, trace = [], raised = None\<rparr>
      | Some m \<Rightarrow>
         (case effective_user upd of
            None \<Rightarrow> \<lparr>states = user_states, trace = [], raised = Some AttributeError\<rparr>
          | Some user_id \<Rightarrow>
             (let state = user_states user_id in
              if state = Some STATE_CLOSED then
                \<lparr>states = user_states,
                 trace = [States_get user_id, Reply_text Door_already_closed None],
                 raised = None\<rparr>
              else
                (let r = start upd user_states
                 in r\<lparr>trace := States_get user_id # trace r\<rparr>))))"

text \<open>
  \<open>on_callback_query\<close>, lines 100-176. The branch of line 149 writes the state and edits the
  message before it reaches \<open>query.message.reply_text\<close>, so with \<open>query.message\<close> absent the
  write and the first text are done when \<open>AttributeError\<close> is raised. A press that matches no
  branch falls off the end of the function.
\<close>

definition on_callback_query :: "update \<Rightarrow> user_states \<Rightarrow> outcome" where
  "on_callback_query upd user_states =
     (case callback_query upd of
        None \<Rightarrow> \<lparr>states = user_states, trace = [], raised = None\<rparr>
      | Some query \<Rightarrow>
         (let user_id = from_user query;
              state = user_states user_id;
              dat = data query
          in
          if state = Some STATE_CLOSED then
            \<lparr>states = user_states,
             trace = [Query_answer, States_get user_id,
                      Edit_message_text Door_already_closed None],
             raised = None\<rparr>
          else if dat = Some ''open_intro'' then
            \<lparr>states = user_states(user_id \<mapsto> STATE_DOOR_SHOWN),
             trace = [Query_answer, States_get user_id,
                      States_set user_id STATE_DOOR_SHOWN,
                      Edit_message_text Door_text
                        (Some [[InlineKeyboardButton Open_label ''open_door'']])],
             raised = None\<rparr>
          else if dat = Some ''open_door'' \<and> state = Some STATE_DOOR_SHOWN then
            (case query_message query of
               None \<Rightarrow>
                 \<lparr>states = user_states(user_id \<mapsto> STATE_CLOSED),
                  trace = [Query_answer, States_get user_id,
                           States_set user_id STATE_CLOSED,
                           Edit_message_text Text_1 None],
                  raised = Some AttributeError\<rparr>
             | Some m \<Rightarrow>
                 \<lparr>states = user_states(user_id \<mapsto> STATE_CLOSED),
                  trace = [Query_answer, States_get user_id,
                           States_set user_id STATE_CLOSED,
                           Edit_message_text Text_1 None,
                           Reply_text Text_2 None,
                           Reply_text Door_closing None,
                           Reply_text Closed_text None],
                  raised = None\<rparr>)
          else
            \<lparr>states = user_states, trace = [Query_answer, States_get user_id],
             raised = None\<rparr>))"

section \<open>Start-up and dispatch\<close>

text \<open>
  \<open>main\<close>, lines 183-206, as a function of the process environment (after \<open>load_dotenv\<close>):
  \<open>os.getenv\<close> is a lookup, \<open>not bot_token\<close> holds of \<open>None\<close> and of the empty string. The
  result lists the calls made on the application, in order, and the exception raised, if any.
\<close>

datatype handler = Start | Handle_message | On_callback_query

datatype registration =
    CommandHandler string handler
  | CallbackQueryHandler handler
  | MessageHandler_TEXT_not_COMMAND handler

datatype startup_effect =
    ApplicationBuilder_build string
  | Add_handler registration
  | Logger_info
  | Run_polling

record startup =
  calls :: "startup_effect list"
  failure :: "error option"

definition main :: "(string \<rightharpoonup> string) \<Rightarrow> startup" where
  "main environ =
     (case environ ''BOT_TOKEN'' of
        None \<Rightarrow> \<lparr>calls = [], failure = Some RuntimeError\<rparr>
      | Some bot_token \<Rightarrow>
          if bot_token = [] then \<lparr>calls = [], failure = Some RuntimeError\<rparr>
          else
            \<lparr>calls = [ApplicationBuilder_build bot_token,
                      Add_handler (CommandHandler ''start'' Start),
                      Add_handler (CallbackQueryHandler On_callback_query),
                      Add_handler (MessageHandler_TEXT_not_COMMAND Handle_message),
                      Logger_info,
                      Run_polling],
             failure = None\<rparr>)"

text \<open>
  The running application hands each update to one of the three registered handlers and
  takes the next update when the handler is done; an exception of a handler is logged and
  the dictionary keeps what was written before it. \<open>invoke\<close> is one such call, \<open>run\<close> the
  dictionary after a sequence of them. No routing is assumed: any handler may be called on
  any update.
\<close>

fun invoke :: "handler \<Rightarrow> update \<Rightarrow> user_states \<Rightarrow> outcome" where
  "invoke Start upd st = start upd st"
| "invoke Handle_message upd st = handle_message upd st"
| "invoke On_callback_query upd st = on_callback_query upd st"

fun run :: "(handler \<times> update) list \<Rightarrow> user_states \<Rightarrow> user_states" where
  "run [] st = st"
| "run ((h, upd) # evs) st = run evs (states (invoke h upd st))"

text \<open>
  The updates the chat platform delivers for the three kinds of event: a chat message of a
  user (the \<open>/start\<close> command or free text; both carry \<open>message\<close> and \<open>effective_user\<close> and
  no callback query), and a press of a button under one of the bot's messages (a callback
  query with the user, the button's payload and the message the button belongs to).
\<close>

definition message_update :: "int \<Rightarrow> update" where
  "message_update uid =
     \<lparr>message = Some Message, effective_user = Some uid, callback_query = None\<rparr>"

definition button_press :: "int \<Rightarrow> string \<Rightarrow> update" where
  "button_press uid payload =
     \<lparr>message = None, effective_user = Some uid,
      callback_query =
        Some \<lparr>from_user = uid, data = Some payload, query_message = Some Message\<rparr>\<rparr>"

section \<open>Auxiliary facts\<close>

lemmas handler_defs = start_def handle_message_def on_callback_query_def
lemmas event_defs = message_update_def button_press_def
lemmas tag_defs = STATE_NEW_def STATE_DOOR_SHOWN_def STATE_CLOSED_def

lemma invoke_keeps_closed:
  "st uid = Some STATE_CLOSED \<Longrightarrow> states (invoke h upd st) uid = Some STATE_CLOSED"
  by (cases h) (auto simp: handler_defs Let_def split: option.splits)

lemma run_keeps_closed:
  "st uid = Some STATE_CLOSED \<Longrightarrow> run evs st uid = Some STATE_CLOSED"
proof (induction evs arbitrary: st)
  case Nil
  then show ?case by simp
next
  case (Cons ev evs)
  obtain h upd where ev: "ev = (h, upd)" by (cases ev)
  from Cons.prems have "states (invoke h upd st) uid = Some STATE_CLOSED"
    by (rule invoke_keeps_closed)
  then have "run evs (states (invoke h upd st)) uid = Some STATE_CLOSED"
    by (rule Cons.IH)
  then show ?case by (simp add: ev)
qed

lemma invoke_stores_tags:
  "states (invoke h upd st) uid = Some v \<Longrightarrow> st uid \<noteq> Some v \<Longrightarrow>
     v \<in> {STATE_NEW, STATE_DOOR_SHOWN, STATE_CLOSED}"
  by (cases h)
    (auto simp: handler_defs Let_def split: option.splits if_splits)

lemma invoke_keeps_entries:
  "st uid \<noteq> None \<Longrightarrow> states (invoke h upd st) uid \<noteq> None"
  by (cases h)
    (auto simp: handler_defs Let_def split: option.splits if_splits)

lemma run_keeps_entries:
  "st uid \<noteq> None \<Longrightarrow> run evs st uid \<noteq> None"
proof (induction evs arbitrary: st)
  case Nil
  then show ?case by simp
next
  case (Cons ev evs)
  obtain h upd where ev: "ev = (h, upd)" by (cases ev)
  from Cons.prems have "states (invoke h upd st) uid \<noteq> None"
    by (rule invoke_keeps_entries)
  then have "run evs (states (invoke h upd st)) uid \<noteq> None"
    by (rule Cons.IH)
  then show ?case by (simp add: ev)
qed

lemma run_stores_tags:
  "ran st \<subseteq> {STATE_NEW, STATE_DOOR_SHOWN, STATE_CLOSED} \<Longrightarrow>
   ran (run evs st) \<subseteq> {STATE_NEW, STATE_DOOR_SHOWN, STATE_CLOSED}"
proof (induction evs arbitrary: st)
  case Nil
  then show ?case by simp
next
  case (Cons ev evs)
  obtain h upd where ev: "ev = (h, upd)" by (cases ev)
  have "ran (states (invoke h upd st)) \<subseteq> {STATE_NEW, STATE_DOOR_SHOWN, STATE_CLOSED}"
  proof
    fix v assume "v \<in> ran (states (invoke h upd st))"
    then obtain k where k: "states (invoke h upd st) k = Some v"
      by (auto simp: ran_def)
    show "v \<in> {STATE_NEW, STATE_DOOR_SHOWN, STATE_CLOSED}"
    proof (cases "st k = Some v")
      case True
      then have "v \<in> ran st" by (auto simp: ran_def)
      with Cons.prems show ?thesis by blast
    next
      case False
      with k show ?thesis by (rule invoke_stores_tags)
    qed
  qed
  then have "ran (run evs (states (invoke h upd st)))
      \<subseteq> {STATE_NEW, STATE_DOOR_SHOWN, STATE_CLOSED}"
    by (rule Cons.IH)
  then show ?case by (simp add: ev)
qed

section \<open>The claims\<close>

text \<open>
  C1. Once the dictionary holds \<open>closed\<close> for a user, it holds \<open>closed\<close> for that user after
  every sequence of handler calls (any handler, any update, any user), and in the store
  reached there each event of that user (a \<open>/start\<close> command, a free text, a button press
  with any payload) leaves the whole dictionary as it is and sends exactly one message, the
  fixed text "the door is already closed", without raising.
\<close>

theorem closed_is_terminal:
  assumes closed: "st uid = Some STATE_CLOSED"
    and later: "st' = run evs st"
  shows "st' uid = Some STATE_CLOSED
       \<and> (message upd_s \<noteq> None \<and> effective_user upd_s = Some uid \<longrightarrow>
            states (start upd_s st') = st'
          \<and> messages (trace (start upd_s st')) = [Reply_text Door_already_closed None]
          \<and> raised (start upd_s st') = None)
       \<and> (message upd_t \<noteq> None \<and> effective_user upd_t = Some uid \<longrightarrow>
            states (handle_message upd_t st') = st'
          \<and> messages (trace (handle_message upd_t st')) =
              [Reply_text Door_already_closed None]
          \<and> raised (handle_message upd_t st') = None)
       \<and> (callback_query upd_b = Some q \<and> from_user q = uid \<longrightarrow>
            states (on_callback_query upd_b st') = st'
          \<and> messages (trace (on_callback_query upd_b st')) =
              [Edit_message_text Door_already_closed None]
          \<and> raised (on_callback_query upd_b st') = None)"
proof -
  have c: "st' uid = Some STATE_CLOSED"
    unfolding later using closed by (rule run_keeps_closed)
  show ?thesis
    using c by (auto simp: handler_defs messages_def Let_def)
qed

theorem closed_is_terminal_witness:
  "(Map.empty(42 \<mapsto> STATE_CLOSED)) 42 = Some STATE_CLOSED
   \<and> run [(Start, message_update 42), (On_callback_query, button_press 42 ''open_intro''),
          (Handle_message, message_update 7)] (Map.empty(42 \<mapsto> STATE_CLOSED)) 42
       = Some STATE_CLOSED
   \<and> messages (trace (start (message_update 42)
        (run [(Start, message_update 42), (On_callback_query, button_press 42 ''open_intro''),
              (Handle_message, message_update 7)] (Map.empty(42 \<mapsto> STATE_CLOSED)))))
       = [Reply_text Door_already_closed None]
   \<and> messages (trace (handle_message (message_update 42)
        (run [(Start, message_update 42), (On_callback_query, button_press 42 ''open_intro''),
              (Handle_message, message_update 7)] (Map.empty(42 \<mapsto> STATE_CLOSED)))))
       = [Reply_text Door_already_closed None]
   \<and> messages (trace (on_callback_query (button_press 42 ''open_door'')
        (run [(Start, message_update 42), (On_callback_query, button_press 42 ''open_intro''),
              (Handle_message, message_update 7)] (Map.empty(42 \<mapsto> STATE_CLOSED)))))
       = [Edit_message_text Door_already_closed None]"
  using closed_is_terminal [of "Map.empty(42 \<mapsto> STATE_CLOSED)" 42
      "run [(Start, message_update 42), (On_callback_query, button_press 42 ''open_intro''),
            (Handle_message, message_update 7)] (Map.empty(42 \<mapsto> STATE_CLOSED))"
      "[(Start, message_update 42), (On_callback_query, button_press 42 ''open_intro''),
        (Handle_message, message_update 7)]"
      "message_update 42" "message_update 42" "button_press 42 ''open_door''"
      "\<lparr>from_user = 42, data = Some ''open_door'', query_message = Some Message\<rparr>"]
  by (simp add: event_defs)

text \<open>
  C2, as amended. In state \<open>door_shown\<close> a press with payload \<open>open_door\<close> stores
  \<open>closed\<close> for the user. A press with any other payload (or with none) leaves the
  dictionary as it is and does not raise; it sends no message unless the payload is
  \<open>open_intro\<close>, for which the branch of line 123, which does not test the state, writes
  \<open>door_shown\<close> again and replaces the message by the door text with its \<open>open_door\<close>
  button.
\<close>

theorem door_shown_press:
  assumes shown: "st uid = Some STATE_DOOR_SHOWN"
    and press: "callback_query upd = Some q" "from_user q = uid"
  shows "(data q = Some ''open_door'' \<longrightarrow>
            states (on_callback_query upd st) = st(uid \<mapsto> STATE_CLOSED))
       \<and> (data q \<noteq> Some ''open_door'' \<longrightarrow>
            states (on_callback_query upd st) = st
          \<and> raised (on_callback_query upd st) = None)
       \<and> (data q \<noteq> Some ''open_door'' \<and> data q \<noteq> Some ''open_intro'' \<longrightarrow>
            messages (trace (on_callback_query upd st)) = [])
       \<and> (data q = Some ''open_intro'' \<longrightarrow>
            messages (trace (on_callback_query upd st)) =
              [Edit_message_text Door_text
                 (Some [[InlineKeyboardButton Open_label ''open_door'']])])"
proof -
  have neq: "STATE_DOOR_SHOWN \<noteq> STATE_CLOSED"
    by (simp add: tag_defs)
  have same: "st(uid \<mapsto> STATE_DOOR_SHOWN) = st"
    using shown by (rule map_upd_triv)
  show ?thesis
    using shown press neq same
    by (auto simp: on_callback_query_def messages_def Let_def split: option.splits)
qed

theorem door_shown_press_witness:
  "(Map.empty(7 \<mapsto> STATE_DOOR_SHOWN)) 7 = Some STATE_DOOR_SHOWN
   \<and> states (on_callback_query (button_press 7 ''open_door'')
        (Map.empty(7 \<mapsto> STATE_DOOR_SHOWN))) 7 = Some STATE_CLOSED
   \<and> states (on_callback_query (button_press 7 ''knock'')
        (Map.empty(7 \<mapsto> STATE_DOOR_SHOWN))) 7 = Some STATE_DOOR_SHOWN
   \<and> messages (trace (on_callback_query (button_press 7 ''knock'')
        (Map.empty(7 \<mapsto> STATE_DOOR_SHOWN)))) = []
   \<and> states (on_callback_query (button_press 7 ''open_intro'')
        (Map.empty(7 \<mapsto> STATE_DOOR_SHOWN))) 7 = Some STATE_DOOR_SHOWN
   \<and> messages (trace (on_callback_query (button_press 7 ''open_intro'')
        (Map.empty(7 \<mapsto> STATE_DOOR_SHOWN)))) =
       [Edit_message_text Door_text (Some [[InlineKeyboardButton Open_label ''open_door'']])]"
  using
    door_shown_press [of "Map.empty(7 \<mapsto> STATE_DOOR_SHOWN)" 7 "button_press 7 ''open_door''"
      "\<lparr>from_user = 7, data = Some ''open_door'', query_message = Some Message\<rparr>"]
    door_shown_press [of "Map.empty(7 \<mapsto> STATE_DOOR_SHOWN)" 7 "button_press 7 ''knock''"
      "\<lparr>from_user = 7, data = Some ''knock'', query_message = Some Message\<rparr>"]
    door_shown_press [of "Map.empty(7 \<mapsto> STATE_DOOR_SHOWN)" 7 "button_press 7 ''open_intro''"
      "\<lparr>from_user = 7, data = Some ''open_intro'', query_message = Some Message\<rparr>"]
  by (simp add: event_defs)

text \<open>
  C2 as stated fails: in state \<open>door_shown\<close> the payload \<open>open_intro\<close>, which is not
  \<open>open_door\<close>, produces a message.
\<close>

theorem door_shown_press_counterexample:
  "(Map.empty(7 \<mapsto> STATE_DOOR_SHOWN)) 7 = Some STATE_DOOR_SHOWN
   \<and> ''open_intro'' \<noteq> ''open_door''
   \<and> messages (trace (on_callback_query (button_press 7 ''open_intro'')
        (Map.empty(7 \<mapsto> STATE_DOOR_SHOWN))))
       = [Edit_message_text Door_text (Some [[InlineKeyboardButton Open_label ''open_door'']])]
   \<and> messages (trace (on_callback_query (button_press 7 ''open_intro'')
        (Map.empty(7 \<mapsto> STATE_DOOR_SHOWN)))) \<noteq> []"
  by (simp add: on_callback_query_def event_defs messages_def tag_defs)

text \<open>
  C3, as amended. For a user with no entry in the dictionary, a \<open>/start\<close> command and a
  free text each store \<open>new\<close> for the user and send exactly the intro text with its
  \<open>open_intro\<close> button, without raising.
\<close>

theorem first_message_gives_intro:
  assumes unseen: "st uid = None"
    and msg: "message upd \<noteq> None" "effective_user upd = Some uid"
  shows "states (start upd st) = st(uid \<mapsto> STATE_NEW)
       \<and> messages (trace (start upd st)) =
           [Reply_text Intro_text (Some [[InlineKeyboardButton Open_the_door ''open_intro'']])]
       \<and> raised (start upd st) = None
       \<and> states (handle_message upd st) = st(uid \<mapsto> STATE_NEW)
       \<and> messages (trace (handle_message upd st)) =
           [Reply_text Intro_text (Some [[InlineKeyboardButton Open_the_door ''open_intro'']])]
       \<and> raised (handle_message upd st) = None"
  using unseen msg by (auto simp: start_def handle_message_def messages_def Let_def)

theorem first_message_gives_intro_witness:
  "(Map.empty :: user_states) 7 = None
   \<and> states (start (message_update 7) Map.empty) 7 = Some STATE_NEW
   \<and> messages (trace (start (message_update 7) Map.empty)) =
       [Reply_text Intro_text (Some [[InlineKeyboardButton Open_the_door ''open_intro'']])]
   \<and> states (handle_message (message_update 7) Map.empty) 7 = Some STATE_NEW
   \<and> messages (trace (handle_message (message_update 7) Map.empty)) =
       [Reply_text Intro_text (Some [[InlineKeyboardButton Open_the_door ''open_intro'']])]"
  using first_message_gives_intro [of Map.empty 7 "message_update 7"]
  by (simp add: event_defs)

text \<open>
  C3 as stated fails for button presses: the first event of an unseen user being a press
  with payload \<open>open_intro\<close> stores \<open>door_shown\<close>, not \<open>new\<close>, and sends the door text,
  not the intro.
\<close>

theorem first_event_counterexample:
  "(Map.empty :: user_states) 7 = None
   \<and> states (on_callback_query (button_press 7 ''open_intro'') Map.empty) 7
       = Some STATE_DOOR_SHOWN
   \<and> states (on_callback_query (button_press 7 ''open_intro'') Map.empty) 7
       \<noteq> Some STATE_NEW
   \<and> messages (trace (on_callback_query (button_press 7 ''open_intro'') Map.empty))
       \<noteq> [Reply_text Intro_text (Some [[InlineKeyboardButton Open_the_door ''open_intro'']])]"
  by (simp add: on_callback_query_def event_defs messages_def tag_defs)

text \<open>
  C4. In state \<open>door_shown\<close> a press with payload \<open>open_door\<close> of a button under one of
  the bot's messages (\<open>query.message\<close> is there to reply to) stores \<open>closed\<close> and sends
  exactly four messages in this order: \<open>text_1\<close> (the empty space) as an edit of the
  message, then as replies \<open>text_2\<close> (the gift), "the door is closing" and the final
  "closed" confirmation.
\<close>

theorem open_door_sends_four_messages:
  assumes shown: "st uid = Some STATE_DOOR_SHOWN"
    and press: "callback_query upd = Some q" "from_user q = uid"
      "data q = Some ''open_door''"
    and msg: "query_message q \<noteq> None"
  shows "states (on_callback_query upd st) = st(uid \<mapsto> STATE_CLOSED)
       \<and> messages (trace (on_callback_query upd st)) =
           [Edit_message_text Text_1 None, Reply_text Text_2 None,
            Reply_text Door_closing None, Reply_text Closed_text None]
       \<and> raised (on_callback_query upd st) = None"
proof -
  have neq: "STATE_DOOR_SHOWN \<noteq> STATE_CLOSED"
    by (simp add: tag_defs)
  show ?thesis
    using shown press msg neq
    by (auto simp: on_callback_query_def messages_def Let_def)
qed

theorem open_door_sends_four_messages_witness:
  "(Map.empty(42 \<mapsto> STATE_DOOR_SHOWN)) 42 = Some STATE_DOOR_SHOWN
   \<and> states (on_callback_query (button_press 42 ''open_door'')
        (Map.empty(42 \<mapsto> STATE_DOOR_SHOWN))) 42 = Some STATE_CLOSED
   \<and> messages (trace (on_callback_query (button_press 42 ''open_door'')
        (Map.empty(42 \<mapsto> STATE_DOOR_SHOWN)))) =
       [Edit_message_text Text_1 None, Reply_text Text_2 None,
        Reply_text Door_closing None, Reply_text Closed_text None]"
  using open_door_sends_four_messages [of "Map.empty(42 \<mapsto> STATE_DOOR_SHOWN)" 42
      "button_press 42 ''open_door''"
      "\<lparr>from_user = 42, data = Some ''open_door'', query_message = Some Message\<rparr>"]
  by (simp add: event_defs)

text \<open>
  C5. For a user in state \<open>new\<close> or with no entry, a press with payload \<open>open_door\<close>
  changes nothing in the dictionary, sends no message and does not raise.
\<close>

theorem open_door_too_early_is_ignored:
  assumes early: "st uid = None \<or> st uid = Some STATE_NEW"
    and press: "callback_query upd = Some q" "from_user q = uid"
      "data q = Some ''open_door''"
  shows "states (on_callback_query upd st) = st
       \<and> messages (trace (on_callback_query upd st)) = []
       \<and> raised (on_callback_query upd st) = None"
proof -
  have neq: "STATE_NEW \<noteq> STATE_CLOSED" "STATE_NEW \<noteq> STATE_DOOR_SHOWN"
    by (simp_all add: tag_defs)
  show ?thesis
    using early press neq
    by (auto simp: on_callback_query_def messages_def Let_def)
qed

theorem open_door_too_early_is_ignored_witness:
  "(Map.empty(7 \<mapsto> STATE_NEW)) 7 = Some STATE_NEW
   \<and> states (on_callback_query (button_press 7 ''open_door'')
        (Map.empty(7 \<mapsto> STATE_NEW))) 7 = Some STATE_NEW
   \<and> messages (trace (on_callback_query (button_press 7 ''open_door'')
        (Map.empty(7 \<mapsto> STATE_NEW)))) = []
   \<and> (Map.empty :: user_states) 7 = None
   \<and> states (on_callback_query (button_press 7 ''open_door'') Map.empty) 7 = None
   \<and> messages (trace (on_callback_query (button_press 7 ''open_door'') Map.empty)) = []"
  using
    open_door_too_early_is_ignored [of "Map.empty(7 \<mapsto> STATE_NEW)" 7
      "button_press 7 ''open_door''"
      "\<lparr>from_user = 7, data = Some ''open_door'', query_message = Some Message\<rparr>"]
    open_door_too_early_is_ignored [of Map.empty 7 "button_press 7 ''open_door''"
      "\<lparr>from_user = 7, data = Some ''open_door'', query_message = Some Message\<rparr>"]
  by (simp add: event_defs)

text \<open>
  C6. For a user in state \<open>new\<close> or with no entry, a press with payload \<open>open_intro\<close>
  stores \<open>door_shown\<close> and sends one message: the door text, with a keyboard of one row
  of one button whose payload is \<open>open_door\<close>.
\<close>

theorem open_intro_shows_door:
  assumes early: "st uid = None \<or> st uid = Some STATE_NEW"
    and press: "callback_query upd = Some q" "from_user q = uid"
      "data q = Some ''open_intro''"
  shows "states (on_callback_query upd st) = st(uid \<mapsto> STATE_DOOR_SHOWN)
       \<and> messages (trace (on_callback_query upd st)) =
           [Edit_message_text Door_text (Some [[InlineKeyboardButton Open_label ''open_door'']])]
       \<and> raised (on_callback_query upd st) = None"
proof -
  have neq: "STATE_NEW \<noteq> STATE_CLOSED"
    by (simp add: tag_defs)
  show ?thesis
    using early press neq
    by (auto simp: on_callback_query_def messages_def Let_def)
qed

theorem open_intro_shows_door_witness:
  "(Map.empty(7 \<mapsto> STATE_NEW)) 7 = Some STATE_NEW
   \<and> states (on_callback_query (button_press 7 ''open_intro'')
        (Map.empty(7 \<mapsto> STATE_NEW))) 7 = Some STATE_DOOR_SHOWN
   \<and> messages (trace (on_callback_query (button_press 7 ''open_intro'')
        (Map.empty(7 \<mapsto> STATE_NEW)))) =
       [Edit_message_text Door_text (Some [[InlineKeyboardButton Open_label ''open_door'']])]
   \<and> (Map.empty :: user_states) 7 = None
   \<and> states (on_callback_query (button_press 7 ''open_intro'') Map.empty) 7
       = Some STATE_DOOR_SHOWN"
  using
    open_intro_shows_door [of "Map.empty(7 \<mapsto> STATE_NEW)" 7
      "button_press 7 ''open_intro''"
      "\<lparr>from_user = 7, data = Some ''open_intro'', query_message = Some Message\<rparr>"]
    open_intro_shows_door [of Map.empty 7 "button_press 7 ''open_intro''"
      "\<lparr>from_user = 7, data = Some ''open_intro'', query_message = Some Message\<rparr>"]
  by (simp add: event_defs)

text \<open>
  C7. In state \<open>door_shown\<close> a free text runs \<open>start\<close> (the result is that of \<open>start\<close>
  on the same update, after the handler's own lookup): the stored state becomes \<open>new\<close>,
  so it is no longer \<open>door_shown\<close>, and the intro text with its button is sent.
\<close>

theorem text_resets_door_shown:
  assumes shown: "st uid = Some STATE_DOOR_SHOWN"
    and msg: "message upd \<noteq> None" "effective_user upd = Some uid"
  shows "states (handle_message upd st) = st(uid \<mapsto> STATE_NEW)
       \<and> states (handle_message upd st) uid \<noteq> Some STATE_DOOR_SHOWN
       \<and> states (handle_message upd st) = states (start upd st)
       \<and> trace (handle_message upd st) = States_get uid # trace (start upd st)
       \<and> messages (trace (handle_message upd st)) =
           [Reply_text Intro_text (Some [[InlineKeyboardButton Open_the_door ''open_intro'']])]
       \<and> raised (handle_message upd st) = None"
proof -
  have neq: "STATE_DOOR_SHOWN \<noteq> STATE_CLOSED" "STATE_NEW \<noteq> STATE_DOOR_SHOWN"
    by (simp_all add: tag_defs)
  show ?thesis
    using shown msg neq
    by (auto simp: start_def handle_message_def messages_def Let_def)
qed

theorem text_resets_door_shown_witness:
  "(Map.empty(42 \<mapsto> STATE_DOOR_SHOWN)) 42 = Some STATE_DOOR_SHOWN
   \<and> states (handle_message (message_update 42) (Map.empty(42 \<mapsto> STATE_DOOR_SHOWN))) 42
       = Some STATE_NEW
   \<and> messages (trace (handle_message (message_update 42)
        (Map.empty(42 \<mapsto> STATE_DOOR_SHOWN)))) =
       [Reply_text Intro_text (Some [[InlineKeyboardButton Open_the_door ''open_intro'']])]"
  using text_resets_door_shown [of "Map.empty(42 \<mapsto> STATE_DOOR_SHOWN)" 42 "message_update 42"]
  by (simp add: event_defs start_def messages_def tag_defs)

text \<open>
  C8. With \<open>BOT_TOKEN\<close> unset or empty, \<open>main\<close> raises \<open>RuntimeError\<close> and has made no
  call on the application: nothing is built, registered or polled. With a non-empty token
  \<open>main\<close> raises nothing and builds the application with that token, registers the three
  handlers, logs and starts polling, in this order.
\<close>

theorem main_needs_bot_token:
  "(environ ''BOT_TOKEN'' = None \<or> environ ''BOT_TOKEN'' = Some [] \<longrightarrow>
      failure (main environ) = Some RuntimeError \<and> calls (main environ) = [])
 \<and> (environ ''BOT_TOKEN'' = Some tok \<and> tok \<noteq> [] \<longrightarrow>
      failure (main environ) = None
    \<and> calls (main environ) =
        [ApplicationBuilder_build tok,
         Add_handler (CommandHandler ''start'' Start),
         Add_handler (CallbackQueryHandler On_callback_query),
         Add_handler (MessageHandler_TEXT_not_COMMAND Handle_message),
         Logger_info, Run_polling])"
  by (auto simp: main_def)

theorem main_needs_bot_token_witness:
  "failure (main Map.empty) = Some RuntimeError \<and> calls (main Map.empty) = []
 \<and> failure (main (Map.empty(''BOT_TOKEN'' \<mapsto> ''''))) = Some RuntimeError
 \<and> calls (main (Map.empty(''BOT_TOKEN'' \<mapsto> ''''))) = []
 \<and> failure (main (Map.empty(''BOT_TOKEN'' \<mapsto> ''123:abc''))) = None
 \<and> hd (calls (main (Map.empty(''BOT_TOKEN'' \<mapsto> ''123:abc'')))) = ApplicationBuilder_build ''123:abc''
 \<and> last (calls (main (Map.empty(''BOT_TOKEN'' \<mapsto> ''123:abc'')))) = Run_polling"
  using main_needs_bot_token [of Map.empty "''x''"]
    main_needs_bot_token [of "Map.empty(''BOT_TOKEN'' \<mapsto> '''')" "''x''"]
    main_needs_bot_token [of "Map.empty(''BOT_TOKEN'' \<mapsto> ''123:abc'')" "''123:abc''"]
  by simp

text \<open>
  C9. After any sequence of handler calls on the initially empty dictionary, every stored
  value is one of \<open>new\<close>, \<open>door_shown\<close>, \<open>closed\<close>; a handler call on any dictionary leaves
  under each key either the value that was there or one of these three; and a key with an
  entry still has one after a call and after any sequence of calls.
\<close>

theorem stored_values_are_state_tags:
  "(run evs Map.empty uid = Some v \<longrightarrow> v \<in> {''new'', ''door_shown'', ''closed''})
 \<and> (states (invoke h upd st) uid = Some w \<and> st uid \<noteq> Some w \<longrightarrow>
      w \<in> {''new'', ''door_shown'', ''closed''})
 \<and> (st uid \<noteq> None \<longrightarrow>
      states (invoke h upd st) uid \<noteq> None \<and> run evs st uid \<noteq> None)"
proof (intro conjI impI)
  assume r: "run evs Map.empty uid = Some v"
  have "ran (run evs Map.empty) \<subseteq> {STATE_NEW, STATE_DOOR_SHOWN, STATE_CLOSED}"
    by (rule run_stores_tags) simp
  moreover from r have "v \<in> ran (run evs Map.empty)"
    by (auto simp: ran_def)
  ultimately show "v \<in> {''new'', ''door_shown'', ''closed''}"
    by (auto simp: tag_defs)
next
  assume "states (invoke h upd st) uid = Some w \<and> st uid \<noteq> Some w"
  then have new: "states (invoke h upd st) uid = Some w" and old: "st uid \<noteq> Some w"
    by simp_all
  from new old have "w \<in> {STATE_NEW, STATE_DOOR_SHOWN, STATE_CLOSED}"
    by (rule invoke_stores_tags)
  then show "w \<in> {''new'', ''door_shown'', ''closed''}"
    by (simp add: tag_defs)
next
  assume "st uid \<noteq> None"
  then show "states (invoke h upd st) uid \<noteq> None"
    by (rule invoke_keeps_entries)
next
  assume "st uid \<noteq> None"
  then show "run evs st uid \<noteq> None"
    by (rule run_keeps_entries)
qed

theorem stored_values_are_state_tags_witness:
  "run [(Start, message_update 42), (On_callback_query, button_press 42 ''open_intro''),
        (Handle_message, message_update 7)] Map.empty 42 = Some ''door_shown''
 \<and> ''door_shown'' \<in> {''new'', ''door_shown'', ''closed''}
 \<and> states (invoke On_callback_query (button_press 42 ''open_door'')
      (Map.empty(42 \<mapsto> ''door_shown''))) 42 = Some ''closed''
 \<and> (Map.empty(42 \<mapsto> ''door_shown'')) 42 \<noteq> Some ''closed''
 \<and> ''closed'' \<in> {''new'', ''door_shown'', ''closed''}
 \<and> (Map.empty(42 \<mapsto> ''door_shown'')) 42 \<noteq> None
 \<and> run [(Start, message_update 42), (On_callback_query, button_press 42 ''open_intro''),
        (Handle_message, message_update 7)] (Map.empty(42 \<mapsto> ''door_shown'')) 42 \<noteq> None"
  using stored_values_are_state_tags [of
      "[(Start, message_update 42), (On_callback_query, button_press 42 ''open_intro''),
        (Handle_message, message_update 7)]" 42 "''door_shown''"
      On_callback_query "button_press 42 ''open_door''"
      "Map.empty(42 \<mapsto> ''door_shown'')" "''closed''"]
  by (simp add: event_defs handler_defs tag_defs)

text \<open>
  C10. Whenever \<open>on_callback_query\<close> is given a callback query, whatever the payload,
  the dictionary and the state of the user, \<open>query.answer()\<close> is the first effect of the
  call, it occurs exactly once among the effects, and it is all that happens before the
  first access to the dictionary.
\<close>

theorem press_is_acknowledged_first:
  assumes press: "callback_query upd = Some q"
  shows "take 1 (trace (on_callback_query upd st)) = [Query_answer]
       \<and> count_list (trace (on_callback_query upd st)) Query_answer = 1
       \<and> takeWhile (\<lambda>e. \<not> is_states_access e) (trace (on_callback_query upd st))
           = [Query_answer]"
  using press
  by (auto simp: on_callback_query_def Let_def split: option.splits)

theorem press_is_acknowledged_first_witness:
  "trace (on_callback_query (button_press 42 ''anything'') (Map.empty(42 \<mapsto> STATE_CLOSED)))
     = [Query_answer, States_get 42, Edit_message_text Door_already_closed None]
 \<and> count_list (trace (on_callback_query (button_press 42 ''anything'')
      (Map.empty(42 \<mapsto> STATE_CLOSED)))) Query_answer = 1
 \<and> trace (on_callback_query (button_press 42 ''anything'') Map.empty)
     = [Query_answer, States_get 42]
 \<and> take 1 (trace (on_callback_query (button_press 42 ''anything'') Map.empty))
     = [Query_answer]"
  using press_is_acknowledged_first [of "button_press 42 ''anything''"
      "\<lparr>from_user = 42, data = Some ''anything'', query_message = Some Message\<rparr>"
      "Map.empty(42 \<mapsto> STATE_CLOSED)"]
    press_is_acknowledged_first [of "button_press 42 ''anything''"
      "\<lparr>from_user = 42, data = Some ''anything'', query_message = Some Message\<rparr>"
      Map.empty]
  by (simp add: event_defs on_callback_query_def tag_defs)

end
